theory Spec2Isabelle
  imports Main "HOL-Library.Sublist" "HOL-Library.Word"
begin

section \<open>Python values, errors and strings\<close>

text \<open>
  The tool of \<^verbatim>\<open>src/Agent/Tools/FireBaseTool.py\<close> works on Firestore documents and on the
  JSON object that the internal router returns. Both are dynamically typed, so the model has
  one type of Python values. A dictionary is the list of its items in iteration order (keys
  are strings, as in Firestore and JSON). A float is its IEEE-754 bit pattern; what Python
  computes and prints for floats is taken from the \<open>runtime\<close> record below.
  A string is the list of the bytes of its UTF-8 encoding: equality, concatenation,
  \<^verbatim>\<open>replace\<close> and \<^verbatim>\<open>in\<close> are the same on the characters and on these bytes. The
  methods \<^verbatim>\<open>lower\<close>, \<^verbatim>\<open>title\<close> and \<^verbatim>\<open>capitalize\<close> are computed here for strings of
  ASCII characters; for any other string they follow the Unicode tables of CPython, which
  are taken from the \<open>runtime\<close> record as well.
\<close>

datatype pyval =
    VNone
  | VBool bool
  | VInt int
  | VFloat "64 word"
  | VStr string
  | VList "pyval list"
  | VDict "(string \<times> pyval) list"

type_synonym pydict = "(string \<times> pyval) list"

text \<open>Every \<^verbatim>\<open>raise\<close> that the code can meet is a value of this type.\<close>

datatype py_error =
    AttributeError
  | TypeError
  | ValueError
  | OverflowError
  | StoreError
  | RouterError
  | OutputParserException

text \<open>
  The parts of CPython that are not modelled bit by bit: conversion of an int to a float,
  float addition, the format \<^verbatim>\<open>:,.2f\<close> of a float, \<^verbatim>\<open>str()\<close> of floats and containers,
  and the three case methods on strings that have a character outside ASCII (an accented
  capital has a small letter too, and a word may begin with an accented letter). Every
  theorem below holds for every runtime, so for CPython's.
\<close>

record runtime =
  rt_float_of_int :: "int \<Rightarrow> py_error + 64 word"
  rt_float_add :: "64 word \<Rightarrow> 64 word \<Rightarrow> 64 word"
  rt_float_fmt2f :: "64 word \<Rightarrow> string"
  rt_str_other :: "pyval \<Rightarrow> string"
  rt_lower :: "string \<Rightarrow> string"
  rt_title :: "string \<Rightarrow> string"
  rt_capitalize :: "string \<Rightarrow> string"

text \<open>Truth value of a Python value, as \<^verbatim>\<open>if x:\<close> and \<^verbatim>\<open>not x\<close> test it.\<close>

fun truthy :: "pyval \<Rightarrow> bool" where
  "truthy VNone = False"
| "truthy (VBool b) = b"
| "truthy (VInt i) = (i \<noteq> 0)"
| "truthy (VFloat w) = (w \<noteq> 0 \<and> w \<noteq> 0x8000000000000000)"
| "truthy (VStr s) = (s \<noteq> [])"
| "truthy (VList xs) = (xs \<noteq> [])"
| "truthy (VDict d) = (d \<noteq> [])"

subsection \<open>String methods\<close>

definition is_upper :: "char \<Rightarrow> bool" where
  "is_upper c \<longleftrightarrow> 65 \<le> (of_char c :: nat) \<and> (of_char c :: nat) \<le> 90"

definition is_lower :: "char \<Rightarrow> bool" where
  "is_lower c \<longleftrightarrow> 97 \<le> (of_char c :: nat) \<and> (of_char c :: nat) \<le> 122"

definition lower_char :: "char \<Rightarrow> char" where
  "lower_char c = (if is_upper c then char_of ((of_char c :: nat) + 32) else c)"

definition upper_char :: "char \<Rightarrow> char" where
  "upper_char c = (if is_lower c then char_of ((of_char c :: nat) - 32) else c)"

definition is_ascii :: "string \<Rightarrow> bool" where
  "is_ascii s \<longleftrightarrow> list_all (\<lambda>c. (of_char c :: nat) < 128) s"

text \<open>\<^verbatim>\<open>s.lower()\<close>\<close>

definition lower :: "runtime \<Rightarrow> string \<Rightarrow> string" where
  "lower rt s = (if is_ascii s then map lower_char s else rt_lower rt s)"

text \<open>\<^verbatim>\<open>s.title()\<close>, on ASCII: a letter that follows a letter is lower-cased, any other
  letter is upper-cased. The flag says whether the previous character was a letter.\<close>

fun title_from :: "bool \<Rightarrow> string \<Rightarrow> string" where
  "title_from prev [] = []"
| "title_from prev (c # cs) =
     (if is_lower c then (if prev then c else upper_char c) # title_from True cs
      else if is_upper c then (if prev then lower_char c else c) # title_from True cs
      else c # title_from False cs)"

definition title :: "runtime \<Rightarrow> string \<Rightarrow> string" where
  "title rt s = (if is_ascii s then title_from False s else rt_title rt s)"

text \<open>\<^verbatim>\<open>s.capitalize()\<close>\<close>

definition capitalize :: "runtime \<Rightarrow> string \<Rightarrow> string" where
  "capitalize rt s =
     (if is_ascii s then (case s of [] \<Rightarrow> [] | c # cs \<Rightarrow> upper_char c # map lower_char cs)
      else rt_capitalize rt s)"

text \<open>\<^verbatim>\<open>s.replace(old, new)\<close>: occurrences are replaced from the left and do not overlap;
  an empty \<open>old\<close> matches before every character and at the end.\<close>

function replace_nonempty :: "string \<Rightarrow> string \<Rightarrow> string \<Rightarrow> string" where
  "replace_nonempty old new [] = []"
| "replace_nonempty old new (c # cs) =
     (if old \<noteq> [] \<and> prefix old (c # cs)
      then new @ replace_nonempty old new (drop (length old) (c # cs))
      else c # replace_nonempty old new cs)"
  by pat_completeness auto
termination
  by (relation "measure (\<lambda>(old, new, s). length s)") auto

definition replace :: "string \<Rightarrow> string \<Rightarrow> string \<Rightarrow> string" where
  "replace old new s =
     (if old = [] then new @ concat (map (\<lambda>c. c # new) s) else replace_nonempty old new s)"

text \<open>\<^verbatim>\<open>t in s\<close> for two strings\<close>

fun occurs_in :: "string \<Rightarrow> string \<Rightarrow> bool" where
  "occurs_in t [] = (t = [])"
| "occurs_in t (c # cs) = (prefix t (c # cs) \<or> occurs_in t cs)"

text \<open>\<^verbatim>\<open>sep.join(xs)\<close>\<close>

fun join :: "string \<Rightarrow> string list \<Rightarrow> string" where
  "join sep [] = []"
| "join sep [x] = x"
| "join sep (x # y # ys) = x @ sep @ join sep (y # ys)"

text \<open>Decimal digits of a natural number and of an integer (\<^verbatim>\<open>str(n)\<close>).\<close>

fun show_nat :: "nat \<Rightarrow> string" where
  "show_nat n = (if n < 10 then [char_of (48 + n)] else show_nat (n div 10) @ [char_of (48 + n mod 10)])"

definition show_int :: "int \<Rightarrow> string" where
  "show_int i = (if i < 0 then CHR ''-'' # show_nat (nat (- i)) else show_nat (nat i))"

definition quoted :: "string \<Rightarrow> string" where
  "quoted s = CHR 0x27 # s @ [CHR 0x27]"

text \<open>\<^verbatim>\<open>f"{v}"\<close>, that is \<^verbatim>\<open>str(v)\<close>\<close>

definition py_str :: "runtime \<Rightarrow> pyval \<Rightarrow> string" where
  "py_str rt v =
     (case v of
        VStr s \<Rightarrow> s
      | VNone \<Rightarrow> ''None''
      | VBool b \<Rightarrow> (if b then ''True'' else ''False'')
      | VInt i \<Rightarrow> show_int i
      | _ \<Rightarrow> rt_str_other rt v)"

subsection \<open>Dictionary access\<close>

text \<open>\<^verbatim>\<open>d.get(k, default)\<close> on a dictionary, and on any value: only a dictionary has
  the method.\<close>

definition get_or :: "pydict \<Rightarrow> string \<Rightarrow> pyval \<Rightarrow> pyval" where
  "get_or d k dflt = (case map_of d k of Some v \<Rightarrow> v | None \<Rightarrow> dflt)"

definition attr_get :: "pyval \<Rightarrow> string \<Rightarrow> pyval \<Rightarrow> py_error + pyval" where
  "attr_get v k dflt = (case v of VDict d \<Rightarrow> Inr (get_or d k dflt) | _ \<Rightarrow> Inl AttributeError)"

text \<open>The characters of a string: in UTF-8 a character is a byte that is not a continuation
  byte (\<open>0x80\<close> to \<open>0xBF\<close>), followed by its continuation bytes.\<close>

definition is_continuation :: "char \<Rightarrow> bool" where
  "is_continuation c \<longleftrightarrow> 128 \<le> (of_char c :: nat) \<and> (of_char c :: nat) < 192"

function characters :: "string \<Rightarrow> string list" where
  "characters [] = []"
| "characters (c # cs) =
     (c # takeWhile is_continuation cs) # characters (dropWhile is_continuation cs)"
  by pat_completeness auto
termination
  by (relation "measure length") (auto simp: length_dropWhile_le less_Suc_eq_le)

text \<open>The elements that \<^verbatim>\<open>for x in v\<close> visits: the keys of a dictionary, the elements of
  a list, the characters of a string.\<close>

definition py_iter :: "pyval \<Rightarrow> py_error + pyval list" where
  "py_iter v =
     (case v of
        VDict d \<Rightarrow> Inr (map (\<lambda>kv. VStr (fst kv)) d)
      | VList xs \<Rightarrow> Inr xs
      | VStr s \<Rightarrow> Inr (map VStr (characters s))
      | _ \<Rightarrow> Inl TypeError)"

subsection \<open>Numbers\<close>

text \<open>\<^verbatim>\<open>a + b\<close>: bools count as ints, an int meets a float as a float, strings and lists
  are concatenated.\<close>

definition int_of_val :: "pyval \<Rightarrow> int option" where
  "int_of_val v = (case v of VInt i \<Rightarrow> Some i | VBool b \<Rightarrow> Some (if b then 1 else 0) | _ \<Rightarrow> None)"

definition float_of_val :: "runtime \<Rightarrow> pyval \<Rightarrow> (py_error + 64 word) option" where
  "float_of_val rt v =
     (case v of
        VFloat w \<Rightarrow> Some (Inr w)
      | _ \<Rightarrow> (case int_of_val v of Some i \<Rightarrow> Some (rt_float_of_int rt i) | None \<Rightarrow> None))"

definition py_add :: "runtime \<Rightarrow> pyval \<Rightarrow> pyval \<Rightarrow> py_error + pyval" where
  "py_add rt a b =
     (case (int_of_val a, int_of_val b) of
        (Some i, Some j) \<Rightarrow> Inr (VInt (i + j))
      | _ \<Rightarrow>
        (case (float_of_val rt a, float_of_val rt b) of
           (Some x, Some y) \<Rightarrow>
             (case x of Inl e \<Rightarrow> Inl e
              | Inr fx \<Rightarrow> (case y of Inl e \<Rightarrow> Inl e | Inr fy \<Rightarrow> Inr (VFloat (rt_float_add rt fx fy))))
         | _ \<Rightarrow>
           (case (a, b) of
              (VStr s, VStr t) \<Rightarrow> Inr (VStr (s @ t))
            | (VList xs, VList ys) \<Rightarrow> Inr (VList (xs @ ys))
            | _ \<Rightarrow> Inl TypeError)))"

text \<open>\<^verbatim>\<open>f"{v:,.2f}"\<close>: a number is printed as a float, a string has no such format code,
  nothing else has a format at all.\<close>

definition format_2f :: "runtime \<Rightarrow> pyval \<Rightarrow> py_error + string" where
  "format_2f rt v =
     (case float_of_val rt v of
        Some (Inr w) \<Rightarrow> Inr (rt_float_fmt2f rt w)
      | Some (Inl e) \<Rightarrow> Inl e
      | None \<Rightarrow> (case v of VStr s \<Rightarrow> Inl ValueError | _ \<Rightarrow> Inl TypeError))"

section \<open>Field formatter: \<^verbatim>\<open>_get_personal_data\<close>\<close>

definition ordered_keys :: "string list" where
  "ordered_keys =
     [''name'', ''email'', ''role'', ''position'', ''department'',
      ''baseSalary'', ''bonus'', ''annualLeaveDays'', ''sickLeaveDays'']"

text \<open>One line of the summary, for a key that the record has.\<close>

definition summary_line :: "runtime \<Rightarrow> string \<Rightarrow> pyval \<Rightarrow> py_error + string" where
  "summary_line rt key val =
     (let display_key = title rt (replace ''joinDate'' ''Start Date'' key) in
      if key = ''baseSalary'' then
        (case format_2f rt val of Inl e \<Rightarrow> Inl e | Inr m \<Rightarrow> Inr (''- Salary: $'' @ m))
      else if key = ''bonus'' then
        (case format_2f rt val of Inl e \<Rightarrow> Inl e | Inr m \<Rightarrow> Inr (''- Bonus: $'' @ m))
      else Inr (''- '' @ display_key @ '': '' @ py_str rt val))"

text \<open>The loop over \<open>ordered_keys\<close>; the first line that cannot be formatted raises.\<close>

fun summary_lines :: "runtime \<Rightarrow> pydict \<Rightarrow> string list \<Rightarrow> py_error + string list" where
  "summary_lines rt user_doc [] = Inr []"
| "summary_lines rt user_doc (key # keys) =
     (case map_of user_doc key of
        None \<Rightarrow> summary_lines rt user_doc keys
      | Some val \<Rightarrow>
          (case summary_line rt key val of
             Inl e \<Rightarrow> Inl e
           | Inr l \<Rightarrow>
               (case summary_lines rt user_doc keys of
                  Inl e \<Rightarrow> Inl e
                | Inr ls \<Rightarrow> Inr (l # ls))))"

text \<open>The line for one of the two document maps: the names whose flag is true, if the map
  is there and not empty and the joined names are not empty.\<close>

definition document_line :: "string \<Rightarrow> pyval \<Rightarrow> py_error + string list" where
  "document_line label docs =
     (if truthy docs then
        (case docs of
           VDict d \<Rightarrow>
             (let joined = join '', '' (map fst (filter (\<lambda>(doc, status). truthy status) d)) in
              if joined \<noteq> [] then Inr [label @ joined] else Inr [])
         | _ \<Rightarrow> Inl AttributeError)
      else Inr [])"

text \<open>The branch for the field \<^verbatim>\<open>all\<close>.\<close>

definition summary :: "runtime \<Rightarrow> pydict \<Rightarrow> pyval \<Rightarrow> py_error + string" where
  "summary rt user_doc name =
     (case summary_lines rt user_doc ordered_keys of
        Inl e \<Rightarrow> Inl e
      | Inr ls \<Rightarrow>
          (case document_line ''- Documents Submitted: '' (get_or user_doc ''uploadedDocuments'' VNone) of
             Inl e \<Rightarrow> Inl e
           | Inr sub \<Rightarrow>
               (case document_line ''- Resubmission Required For: ''
                       (get_or user_doc ''resubmissionRequested'' VNone) of
                  Inl e \<Rightarrow> Inl e
                | Inr res \<Rightarrow>
                    Inr (join [CHR 0x0A]
                          ((''Here is a summary for '' @ py_str rt name @ '':'') # ls @ sub @ res)))))"

text \<open>The loop over the record's items that looks for the field without regard to case.\<close>

fun direct_match :: "runtime \<Rightarrow> string \<Rightarrow> pydict \<Rightarrow> (string \<times> pyval) option" where
  "direct_match rt field_lower [] = None"
| "direct_match rt field_lower ((doc_key, doc_value) # items) =
     (if lower rt doc_key = field_lower then Some (doc_key, doc_value)
      else direct_match rt field_lower items)"

text \<open>The synthetic \<^verbatim>\<open>salary\<close> field.\<close>

definition salary_info :: "runtime \<Rightarrow> pydict \<Rightarrow> pyval \<Rightarrow> py_error + string" where
  "salary_info rt user_doc name =
     (if map_of user_doc ''baseSalary'' \<noteq> None then
        (let base = get_or user_doc ''baseSalary'' (VInt 0);
             bonus = get_or user_doc ''bonus'' (VInt 0) in
         case name of
           VStr n \<Rightarrow>
             (case py_add rt base bonus of
                Inl e \<Rightarrow> Inl e
              | Inr pay \<Rightarrow>
                  (case format_2f rt pay of
                     Inl e \<Rightarrow> Inl e
                   | Inr m \<Rightarrow> Inr (capitalize rt n @ CHR 0x27 # ''s total compensation is $'' @ m @ ''.'')))
         | _ \<Rightarrow> Inl AttributeError)
      else Inr (''Salary information is not available for '' @ py_str rt name @ ''.''))"

definition get_personal_data :: "runtime \<Rightarrow> pydict \<Rightarrow> pyval \<Rightarrow> py_error + string" where
  "get_personal_data rt user_doc field =
     (if \<not> truthy field then Inr ''Please specify what personal information you'd like to know.''
      else
        (let name = get_or user_doc ''name'' (VStr ''The user'') in
         case field of
           VStr f \<Rightarrow>
             (let field_lower = lower rt f in
              if field_lower = ''all'' then summary rt user_doc name
              else
                (case direct_match rt field_lower user_doc of
                   Some (doc_key, doc_value) \<Rightarrow>
                     Inr (''The value for '' @ quoted doc_key @ '' for '' @ py_str rt name
                          @ '' is: '' @ py_str rt doc_value)
                 | None \<Rightarrow>
                     if field_lower = ''salary'' then salary_info rt user_doc name
                     else Inr (''I'm sorry, I couldn't find information about '' @ quoted f
                               @ '' in '' @ py_str rt name @ CHR 0x27 # ''s records.'')))
         | _ \<Rightarrow> Inl AttributeError))"

section \<open>Document-status matcher: \<^verbatim>\<open>_check_document_status\<close>\<close>

text \<open>The loop of \<^verbatim>\<open>find_robust_key\<close>; \<open>VNone\<close> is Python's \<^verbatim>\<open>None\<close> for "no key".\<close>

fun find_robust_loop :: "runtime \<Rightarrow> string \<Rightarrow> pyval list \<Rightarrow> py_error + pyval" where
  "find_robust_loop rt clean_target [] = Inr VNone"
| "find_robust_loop rt clean_target (key_from_db # rest) =
     (case key_from_db of
        VStr k \<Rightarrow>
          (if occurs_in clean_target (replace '' '' [] (lower rt k)) then Inr key_from_db
           else find_robust_loop rt clean_target rest)
      | _ \<Rightarrow> Inl AttributeError)"

definition find_robust_key :: "runtime \<Rightarrow> pyval \<Rightarrow> pyval \<Rightarrow> py_error + pyval" where
  "find_robust_key rt data_map target_key_from_llm =
     (case target_key_from_llm of
        VStr t \<Rightarrow>
          (let clean_target = replace '' '' [] (lower rt t) in
           case py_iter data_map of
             Inl e \<Rightarrow> Inl e
           | Inr keys \<Rightarrow> find_robust_loop rt clean_target keys)
      | _ \<Rightarrow> Inl AttributeError)"

text \<open>\<^verbatim>\<open>data_map.get(key)\<close> for the key that the loop returned.\<close>

definition flag_of :: "pyval \<Rightarrow> pyval \<Rightarrow> py_error + pyval" where
  "flag_of data_map key = (case key of VStr k \<Rightarrow> attr_get data_map k VNone | _ \<Rightarrow> Inl TypeError)"

definition uploaded_status :: "runtime \<Rightarrow> pydict \<Rightarrow> pyval \<Rightarrow> pyval \<Rightarrow> py_error + string" where
  "uploaded_status rt user_doc document_name name =
     (let no_info = ''There is no information regarding the document ''
                      @ quoted (py_str rt document_name) @ '' for '' @ py_str rt name @ ''.'';
          up_map = get_or user_doc ''uploadedDocuments'' VNone in
      if truthy up_map then
        (case find_robust_key rt up_map document_name of
           Inl e \<Rightarrow> Inl e
         | Inr up_key \<Rightarrow>
             if truthy up_key then
               (case flag_of up_map up_key of
                  Inl e \<Rightarrow> Inl e
                | Inr flag \<Rightarrow>
                    if truthy flag then
                      Inr (''Yes, the '' @ quoted (py_str rt up_key) @ '' for '' @ py_str rt name
                           @ '' has been successfully submitted and approved.'')
                    else Inr no_info)
             else Inr no_info)
      else Inr no_info)"

definition check_document_status :: "runtime \<Rightarrow> pydict \<Rightarrow> pyval \<Rightarrow> py_error + string" where
  "check_document_status rt user_doc document_name =
     (if \<not> truthy document_name then Inr ''Please specify which document you'd like to check.''
      else
        (let name = get_or user_doc ''name'' (VStr ''the user'');
             resub_map = get_or user_doc ''resubmissionRequested'' VNone in
         if truthy resub_map then
           (case find_robust_key rt resub_map document_name of
              Inl e \<Rightarrow> Inl e
            | Inr resub_key \<Rightarrow>
                if truthy resub_key then
                  (case flag_of resub_map resub_key of
                     Inl e \<Rightarrow> Inl e
                   | Inr flag \<Rightarrow>
                       if truthy flag then
                         Inr (''Action required for '' @ py_str rt name
                              @ '': They need to resubmit their '' @ quoted (py_str rt resub_key) @ ''.'')
                       else uploaded_status rt user_doc document_name name)
                else uploaded_status rt user_doc document_name name)
         else uploaded_status rt user_doc document_name name))"

section \<open>Record store\<close>

text \<open>
  The Firestore collection \<^verbatim>\<open>users\<close> is a list of documents (id and fields) in the order
  in which a query streams them. Every call on the store may fail with an I/O error;
  \<open>raises\<close> says which calls do. The calls that a request makes are recorded as events,
  together with the call of the router.
\<close>

datatype store_call = GetDocument string | WhereEq string pyval

record store =
  users :: "(string \<times> pydict) list"
  raises :: "store_call \<Rightarrow> bool"

datatype event = Store store_call | Route string pyval "(string \<times> string) list"

text \<open>\<^verbatim>\<open>collection("users").where(field, "==", v)\<close>, streamed\<close>

definition where_eq :: "store \<Rightarrow> string \<Rightarrow> pyval \<Rightarrow> py_error + pydict list" where
  "where_eq db field_name v =
     (if raises db (WhereEq field_name v) then Inl StoreError
      else Inr (filter (\<lambda>d. map_of d field_name = Some v) (map snd (users db))))"

text \<open>\<^verbatim>\<open>_get_user_document\<close>: an exception of the store is logged and becomes \<^verbatim>\<open>None\<close>.\<close>

definition get_user_document :: "store option \<Rightarrow> string \<Rightarrow> pydict option \<times> event list" where
  "get_user_document db_client user_id =
     (case db_client of
        None \<Rightarrow> (None, [])
      | Some db \<Rightarrow>
          (if raises db (GetDocument user_id) then None else map_of (users db) user_id,
           [Store (GetDocument user_id)]))"

text \<open>\<^verbatim>\<open>_get_new_applicant_count\<close>\<close>

definition get_new_applicant_count :: "store option \<Rightarrow> (py_error + string) \<times> event list" where
  "get_new_applicant_count db_client =
     (case db_client of
        None \<Rightarrow> (Inr ''Database not available.'', [])
      | Some db \<Rightarrow>
          (case where_eq db ''role'' (VStr ''new'') of
             Inl e \<Rightarrow> Inl e
           | Inr docs \<Rightarrow>
               (let count = length docs in
                if count = 0 then Inr ''There are currently no new applicants.''
                else if count = 1 then Inr (''There is currently '' @ show_nat count @ '' new applicant.'')
                else Inr (''There are currently '' @ show_nat count @ '' new applicants.'')),
           [Store (WhereEq ''role'' (VStr ''new''))]))"

text \<open>\<^verbatim>\<open>_get_user_by_identifier\<close>: the query by email, then the query by title-cased name.
  Each query is limited to one document.\<close>

definition get_user_by_identifier ::
    "runtime \<Rightarrow> store \<Rightarrow> pyval \<Rightarrow> (py_error + pydict option) \<times> event list" where
  "get_user_by_identifier rt db identifier =
     (if \<not> truthy identifier then (Inr None, [])
      else
        (case where_eq db ''email'' identifier of
           Inl e \<Rightarrow> (Inl e, [Store (WhereEq ''email'' identifier)])
         | Inr by_email \<Rightarrow>
             (case by_email of
                doc # _ \<Rightarrow> (Inr (Some doc), [Store (WhereEq ''email'' identifier)])
              | [] \<Rightarrow>
                  (case identifier of
                     VStr s \<Rightarrow>
                       (case where_eq db ''name'' (VStr (title rt s)) of
                          Inl e \<Rightarrow> Inl e
                        | Inr by_name \<Rightarrow> (case by_name of doc # _ \<Rightarrow> Inr (Some doc) | [] \<Rightarrow> Inr None),
                        [Store (WhereEq ''email'' identifier), Store (WhereEq ''name'' (VStr (title rt s)))])
                   | _ \<Rightarrow> (Inl AttributeError, [Store (WhereEq ''email'' identifier)])))))"

section \<open>Dispatcher: \<^verbatim>\<open>get_user_specific_data_tool\<close>\<close>

text \<open>The router is the chain of prompt, language model and JSON parser. It is called with
  the query, the caller's role and the action menu, and either raises (the call fails, or
  the output is not JSON) or returns the parsed JSON value.\<close>

type_synonym router = "string \<Rightarrow> pyval \<Rightarrow> (string \<times> string) list \<Rightarrow> py_error + pyval"

definition available_actions :: "pyval \<Rightarrow> (string \<times> string) list" where
  "available_actions user_role =
     (if user_role \<in> set [VStr ''employee'', VStr ''new''] then
        [(''get_my_personal_info'', ''Get the logged-in user's own core data.''),
         (''check_my_document_status'', ''Check the logged-in user's own document submission status.'')]
      else if user_role = VStr ''hr'' then
        [(''get_my_personal_info'', ''Get the HR user's own core data.''),
         (''check_my_document_status'', ''Check the HR user's own document status.''),
         (''get_information_about_anyone'', ''Get info (data or document status) about any other user.''),
         (''get_applicant_count'', ''Get the total count of new job applicants.'')]
      else [])"

definition doc_keywords :: "string list" where
  "doc_keywords = [''document'', ''certificate'', ''id'', ''bank'', ''submission'', ''status'', ''upload'']"

definition cannot_perform :: string where
  "cannot_perform =
     ''I'm sorry, I cannot perform that action due to your permissions or an unrecognized request.''"

definition please_rephrase :: string where
  "please_rephrase = ''I had trouble processing your request. Please try rephrasing.''"

definition profile_not_found :: string where
  "profile_not_found = ''I'm sorry, I couldn't find your user profile.''"

definition cannot_connect :: string where
  "cannot_connect = ''I am sorry, but I cannot connect to our database at the moment.''"

text \<open>The branch for \<^verbatim>\<open>get_information_about_anyone\<close>, taken for role \<^verbatim>\<open>hr\<close> only.\<close>

definition information_about_anyone ::
    "runtime \<Rightarrow> store \<Rightarrow> pyval \<Rightarrow> (py_error + string) \<times> event list" where
  "information_about_anyone rt db parameters =
     (case attr_get parameters ''target_identifier'' VNone of
        Inl e \<Rightarrow> (Inl e, [])
      | Inr target_id \<Rightarrow>
          (case attr_get parameters ''request_details'' (VStr ''all'') of
             Inl e \<Rightarrow> (Inl e, [])
           | Inr req_details \<Rightarrow>
               if \<not> truthy target_id then (Inr ''Please specify the person you are asking about.'', [])
               else
                 (case get_user_by_identifier rt db target_id of
                    (found, evs) \<Rightarrow>
                      (case found of
                         Inl e \<Rightarrow> (Inl e, evs)
                       | Inr target \<Rightarrow>
                           (let no_user = ''I could not find a user matching ''
                                            @ quoted (py_str rt target_id) @ ''.'' in
                            case target of
                              None \<Rightarrow> (Inr no_user, evs)
                            | Some target_doc \<Rightarrow>
                                if target_doc = [] then (Inr no_user, evs)
                                else
                                  (case req_details of
                                     VStr r \<Rightarrow>
                                       if list_ex (\<lambda>keyword. occurs_in keyword (lower rt r)) doc_keywords
                                       then (check_document_status rt target_doc req_details, evs)
                                       else (get_personal_data rt target_doc req_details, evs)
                                   | _ \<Rightarrow> (Inl AttributeError, evs)))))))"

text \<open>The body of the \<^verbatim>\<open>try\<close> block after the router has returned \<open>response\<close>.\<close>

definition dispatch ::
    "runtime \<Rightarrow> store \<Rightarrow> pydict \<Rightarrow> pyval \<Rightarrow> pyval \<Rightarrow> (py_error + string) \<times> event list" where
  "dispatch rt db user_doc user_role response =
     (case attr_get response ''action_name'' VNone of
        Inl e \<Rightarrow> (Inl e, [])
      | Inr action_name \<Rightarrow>
          (case attr_get response ''parameters'' (VDict []) of
             Inl e \<Rightarrow> (Inl e, [])
           | Inr parameters \<Rightarrow>
               if action_name = VStr ''get_my_personal_info'' then
                 (case attr_get parameters ''field'' VNone of
                    Inl e \<Rightarrow> (Inl e, [])
                  | Inr field \<Rightarrow> (get_personal_data rt user_doc field, []))
               else if action_name = VStr ''check_my_document_status'' then
                 (case attr_get parameters ''document_name'' VNone of
                    Inl e \<Rightarrow> (Inl e, [])
                  | Inr document_name \<Rightarrow> (check_document_status rt user_doc document_name, []))
               else if action_name = VStr ''get_applicant_count'' \<and> user_role = VStr ''hr'' then
                 get_new_applicant_count (Some db)
               else if action_name = VStr ''get_information_about_anyone'' \<and> user_role = VStr ''hr'' then
                 information_about_anyone rt db parameters
               else (Inr cannot_perform, [])))"

text \<open>The tool. It returns the text for the caller and the events of the request in the
  order in which they happened. Every exception inside the \<^verbatim>\<open>try\<close> block becomes the
  rephrase message. The settings and the model client that the function builds first are
  taken as given; the router stands for the chain built from them.\<close>

definition get_user_specific_data_tool ::
    "runtime \<Rightarrow> router \<Rightarrow> string \<Rightarrow> string \<Rightarrow> store option \<Rightarrow> string \<times> event list" where
  "get_user_specific_data_tool rt router query user_id db_client =
     (case db_client of
        None \<Rightarrow> (cannot_connect, [])
      | Some db \<Rightarrow>
          (case get_user_document db_client user_id of
             (loaded, evs) \<Rightarrow>
               (case loaded of
                  None \<Rightarrow> (profile_not_found, evs)
                | Some user_doc \<Rightarrow>
                    if user_doc = [] then (profile_not_found, evs)
                    else
                      (let user_role = get_or user_doc ''role'' (VStr ''unknown'');
                           actions = available_actions user_role in
                       if actions = [] then
                         (''I'm sorry, your user role ('' @ quoted (py_str rt user_role)
                            @ '') is not configured for any actions.'', evs)
                       else
                         (case router query user_role actions of
                            Inl e \<Rightarrow> (please_rephrase, evs @ [Route query user_role actions])
                          | Inr response \<Rightarrow>
                              (case dispatch rt db user_doc user_role response of
                                 (outcome, evs') \<Rightarrow>
                                   (case outcome of
                                      Inl e \<Rightarrow> please_rephrase
                                    | Inr answer \<Rightarrow> answer,
                                    evs @ [Route query user_role actions] @ evs')))))))"

section \<open>The specification's words\<close>

text \<open>The matcher of the specification: both names are lower-cased and lose their spaces,
  and the requested name matches a stored key if it occurs in it.\<close>

definition spec_normalize :: "runtime \<Rightarrow> string \<Rightarrow> string" where
  "spec_normalize rt s = filter (\<lambda>c. c \<noteq> CHR '' '') (lower rt s)"

definition spec_matches :: "runtime \<Rightarrow> string \<Rightarrow> string \<Rightarrow> bool" where
  "spec_matches rt requested stored \<longleftrightarrow>
     sublist (spec_normalize rt requested) (spec_normalize rt stored)"

section \<open>Example data\<close>

text \<open>A runtime for the examples. Its floats and its case methods for strings outside
  ASCII are stand-ins; the examples print no float and are written in ASCII.\<close>

definition example_runtime :: runtime where
  "example_runtime =
     \<lparr>rt_float_of_int = (\<lambda>i. Inr (word_of_int i)),
      rt_float_add = (\<lambda>a b. a + b),
      rt_float_fmt2f = (\<lambda>w. ''?''),
      rt_str_other = (\<lambda>v. ''?''),
      rt_lower = (\<lambda>s. s),
      rt_title = (\<lambda>s. s),
      rt_capitalize = (\<lambda>s. s)\<rparr>"

definition omar :: pydict where
  "omar =
     [(''name'', VStr ''Omar''), (''email'', VStr ''omar@co.com''), (''role'', VStr ''employee''),
      (''resubmissionRequested'', VDict [(''ID Card'', VBool True)]),
      (''uploadedDocuments'', VDict [(''ID Card'', VBool True)])]"

definition hana :: pydict where
  "hana = [(''name'', VStr ''Hana''), (''email'', VStr ''hana@co.com''), (''role'', VStr ''hr'')]"

definition bob :: pydict where
  "bob = [(''name'', VStr ''Bob''), (''email'', VStr ''bob@other.com''), (''role'', VStr ''new'')]"

definition robert :: pydict where
  "robert =
     [(''name'', VStr ''Robert''), (''email'', VStr ''bob@co.com''), (''role'', VStr ''employee''),
      (''resubmissionRequested'', VDict [(''ID Card'', VBool False)]),
      (''uploadedDocuments'', VDict [(''ID Card'', VBool True)])]"

definition adam :: pydict where
  "adam = [(''name'', VStr ''Adam''), (''role'', VStr ''admin'')]"

definition gina :: pydict where
  "gina = [(''name'', VStr ''Gina''), (''role'', VStr ''guest'')]"

text \<open>Sara's base salary is stored as a string.\<close>

definition sara :: pydict where
  "sara =
     [(''name'', VStr ''Sara''), (''email'', VStr ''sara@co.com''), (''role'', VStr ''employee''),
      (''baseSalary'', VStr ''5000'')]"

definition example_users :: "(string \<times> pydict) list" where
  "example_users =
     [(''u1'', omar), (''u2'', hana), (''u3'', bob), (''u4'', robert), (''u5'', adam), (''u6'', gina),
      (''u7'', sara)]"

definition example_store :: store where
  "example_store = \<lparr>users = example_users, raises = (\<lambda>c. False)\<rparr>"

definition failing_store :: store where
  "failing_store = \<lparr>users = example_users, raises = (\<lambda>c. True)\<rparr>"

definition salary_record :: pydict where
  "salary_record = [(''name'', VStr ''Omar''), (''Salary'', VInt 10), (''baseSalary'', VInt 100)]"

definition all_caps_record :: pydict where
  "all_caps_record = [(''ALL'', VInt 1)]"

text \<open>Nora's new ID card is uploaded and approved; an older entry that also matches
  \<^verbatim>\<open>id\<close> comes first in the map and has a false flag.\<close>

definition nora :: pydict where
  "nora =
     [(''name'', VStr ''Nora''),
      (''resubmissionRequested'', VDict [(''ID Card'', VBool False)]),
      (''uploadedDocuments'', VDict [(''Old ID'', VBool False), (''ID Card'', VBool True)])]"

text \<open>Names outside ASCII, as UTF-8 bytes: a school with an accented capital E and with the
  small letter, and a first name with an accented small e, in small letters and as a
  title.\<close>

definition ecole_cap :: string where
  "ecole_cap = [CHR 0xC3, CHR 0x89] @ ''cole''"

definition ecole_small :: string where
  "ecole_small = [CHR 0xC3, CHR 0xA9] @ ''cole''"

definition renee_small :: string where
  "renee_small = ''ren'' @ [CHR 0xC3, CHR 0xA9] @ ''e''"

definition renee_title :: string where
  "renee_title = ''Ren'' @ [CHR 0xC3, CHR 0xA9] @ ''e''"

definition ecole_record :: pydict where
  "ecole_record =
     [(''name'', VStr ''Omar''),
      (''resubmissionRequested'',
         VDict [(ecole_cap, VBool False), (ecole_small @ '' x'', VBool True)])]"

definition renee_store :: store where
  "renee_store = \<lparr>users = [(''u9'', [(''name'', VStr renee_title)])], raises = (\<lambda>c. False)\<rparr>"

text \<open>Routers for the examples: one that raises, one that names the applicant count, one
  whose object has no \<^verbatim>\<open>action_name\<close>, and two that ask about Bob and about Sara without
  request details.\<close>

definition failing_router :: router where
  "failing_router = (\<lambda>query user_role actions. Inl RouterError)"

definition count_router :: router where
  "count_router =
     (\<lambda>query user_role actions.
        Inr (VDict [(''action_name'', VStr ''get_applicant_count''), (''parameters'', VDict [])]))"

definition nameless_router :: router where
  "nameless_router = (\<lambda>query user_role actions. Inr (VDict [(''parameters'', VDict [])]))"

definition about_bob_router :: router where
  "about_bob_router =
     (\<lambda>query user_role actions.
        Inr (VDict [(''action_name'', VStr ''get_information_about_anyone''),
                    (''parameters'', VDict [(''target_identifier'', VStr ''bob'')])]))"

definition about_sara_router :: router where
  "about_sara_router =
     (\<lambda>query user_role actions.
        Inr (VDict [(''action_name'', VStr ''get_information_about_anyone''),
                    (''parameters'', VDict [(''target_identifier'', VStr ''sara'')])]))"

section \<open>Strings and the matcher's loop\<close>

lemma replace_nonempty_space: "replace_nonempty '' '' [] s = filter (\<lambda>c. c \<noteq> CHR '' '') s"
  by (induction s) auto

lemma replace_space: "replace '' '' [] s = filter (\<lambda>c. c \<noteq> CHR '' '') s"
  by (simp add: replace_def replace_nonempty_space)

lemma occurs_in_sublist: "occurs_in t s \<longleftrightarrow> sublist t s"
  by (induction s) (auto simp: sublist_Cons_right)

lemma clean_matches:
  "occurs_in (replace '' '' [] (lower rt t)) (replace '' '' [] (lower rt k)) \<longleftrightarrow> spec_matches rt t k"
  by (simp add: occurs_in_sublist replace_space spec_matches_def spec_normalize_def)

lemma find_robust_loop_keys:
  "find_robust_loop rt (replace '' '' [] (lower rt t)) (map (\<lambda>kv. VStr (fst kv)) m) =
     Inr (case find (spec_matches rt t) (map fst m) of Some k \<Rightarrow> VStr k | None \<Rightarrow> VNone)"
  by (induction m) (simp_all add: clean_matches)

lemma find_robust_key_dict:
  "find_robust_key rt (VDict m) (VStr t) =
     Inr (case find (spec_matches rt t) (map fst m) of Some k \<Rightarrow> VStr k | None \<Rightarrow> VNone)"
  by (simp add: find_robust_key_def py_iter_def find_robust_loop_keys)

text \<open>On ASCII strings the case methods do not depend on the runtime.\<close>

lemma lower_ascii: "is_ascii s \<Longrightarrow> lower rt s = map lower_char s"
  by (simp add: lower_def)

lemma title_ascii: "is_ascii s \<Longrightarrow> title rt s = title_from False s"
  by (simp add: title_def)

lemma id_matches_id_card: "spec_matches rt ''id'' ''ID Card''"
  by code_simp

lemma id_matches_old_id: "spec_matches rt ''id'' ''Old ID''"
  by code_simp

lemma find_Some_nonempty: "find P xs = Some x \<Longrightarrow> xs \<noteq> []"
  by (cases xs) auto

lemma direct_match_find:
  "direct_match rt field_lower items =
     find (\<lambda>(doc_key, doc_value). lower rt doc_key = field_lower) items"
  by (induction items) auto

lemma find_filter_hd: "find P xs = (case filter P xs of [] \<Rightarrow> None | x # _ \<Rightarrow> Some x)"
  by (induction xs) auto

section \<open>Field formatter\<close>

text \<open>
  C6, as amended. For every record and every non-empty field name whose lower-cased form is
  not \<^verbatim>\<open>all\<close>, the first record key that equals the field name without regard to case is
  returned with its value. Only when no key matches does the field \<^verbatim>\<open>salary\<close> get the
  synthetic handling: base salary plus bonus as total compensation, or the report that
  salary information is not available when the record has no base salary. This holds also
  for a record with keys that are salary variants. Any other field is reported as not
  found. A field name whose lower-cased form is \<^verbatim>\<open>all\<close> gets the summary.
\<close>

theorem get_personal_data_direct_match_first:
  assumes "field \<noteq> []"
  shows "get_personal_data rt user_doc (VStr field) =
           (let name = get_or user_doc ''name'' (VStr ''The user'') in
            if lower rt field = ''all'' then summary rt user_doc name
            else
              (case find (\<lambda>(doc_key, doc_value). lower rt doc_key = lower rt field) user_doc of
                 Some (doc_key, doc_value) \<Rightarrow>
                   Inr (''The value for '' @ quoted doc_key @ '' for '' @ py_str rt name
                        @ '' is: '' @ py_str rt doc_value)
               | None \<Rightarrow>
                   if lower rt field = ''salary'' then
                     (if map_of user_doc ''baseSalary'' = None then
                        Inr (''Salary information is not available for '' @ py_str rt name @ ''.'')
                      else
                        (case name of
                           VStr n \<Rightarrow>
                             (case py_add rt (get_or user_doc ''baseSalary'' (VInt 0))
                                     (get_or user_doc ''bonus'' (VInt 0)) of
                                Inl e \<Rightarrow> Inl e
                              | Inr pay \<Rightarrow>
                                  (case format_2f rt pay of
                                     Inl e \<Rightarrow> Inl e
                                   | Inr m \<Rightarrow>
                                       Inr (capitalize rt n @ CHR 0x27
                                            # ''s total compensation is $'' @ m @ ''.'')))
                         | _ \<Rightarrow> Inl AttributeError))
                   else Inr (''I'm sorry, I couldn't find information about '' @ quoted field
                             @ '' in '' @ py_str rt name @ CHR 0x27 # ''s records.'')))"
proof (cases "find (\<lambda>(doc_key, doc_value). lower rt doc_key = lower rt field) user_doc")
  case None
  with assms show ?thesis
    by (simp add: get_personal_data_def direct_match_find salary_info_def Let_def)
next
  case (Some kv)
  with assms show ?thesis
    by (cases kv) (simp add: get_personal_data_def direct_match_find Let_def)
qed

theorem get_personal_data_direct_match_first_witness:
  "get_personal_data example_runtime salary_record (VStr ''salary'') =
     Inr (''The value for '' @ quoted ''Salary'' @ '' for Omar is: 10'') \<and>
   map_of salary_record ''baseSalary'' = Some (VInt 100)"
proof -
  have h1: "''salary'' \<noteq> []"
    by simp
  have not_all: "lower example_runtime ''salary'' \<noteq> ''all''"
    by code_simp
  have found: "find (\<lambda>(doc_key, doc_value). lower example_runtime doc_key
                       = lower example_runtime ''salary'') salary_record
                 = Some (''Salary'', VInt 10)"
    by code_simp
  have name: "py_str example_runtime (get_or salary_record ''name'' (VStr ''The user'')) = ''Omar''"
    by code_simp
  have ten: "py_str example_runtime (VInt 10) = ''10''"
    by code_simp
  have base: "map_of salary_record ''baseSalary'' = Some (VInt 100)"
    by (simp add: salary_record_def)
  show ?thesis
    using get_personal_data_direct_match_first [OF h1, of example_runtime salary_record] base
    by (simp add: found name ten not_all Let_def)
qed

text \<open>
  C6 as the claim states it speaks of every field name other than \<^verbatim>\<open>all\<close>. The field
  name \<^verbatim>\<open>ALL\<close> is another name, the record below has the key \<^verbatim>\<open>ALL\<close>, and still the
  answer is the summary, not the value of that key: the test for \<^verbatim>\<open>all\<close> is made on the
  lower-cased name and comes first.
\<close>

theorem get_personal_data_all_counterexample:
  "''ALL'' \<noteq> ''all'' \<and>
   direct_match example_runtime (lower example_runtime ''ALL'') all_caps_record
     = Some (''ALL'', VInt 1) \<and>
   get_personal_data example_runtime all_caps_record (VStr ''ALL'')
     = Inr ''Here is a summary for The user:'' \<and>
   get_personal_data example_runtime all_caps_record (VStr ''ALL'')
     \<noteq> Inr (''The value for '' @ quoted ''ALL'' @ '' for The user is: 1'')"
  by code_simp

section \<open>Document-status matcher\<close>

text \<open>
  C2. \<^verbatim>\<open>find_robust_key\<close> returns the first stored key in which the requested name occurs,
  both lower-cased and without spaces. The resubmission map is looked at first: when its
  first matching key has a true flag, the answer is the resubmission message for that key,
  whatever the map of uploaded documents holds. The record with
  \<^verbatim>\<open>resubmissionRequested = {"ID Card": true}\<close>, \<^verbatim>\<open>uploadedDocuments = {"ID Card": true}\<close>
  and the request \<^verbatim>\<open>id\<close> is the witness.
\<close>

theorem check_document_status_resubmission_first:
  assumes "map_of user_doc ''resubmissionRequested'' = Some (VDict resub)"
    and "document_name \<noteq> []"
    and "find (spec_matches rt document_name) (map fst resub) = Some key"
    and "key \<noteq> []"
    and "map_of resub key = Some flag"
    and "truthy flag"
  shows "find_robust_key rt (VDict data_map) (VStr target) =
           Inr (case find (spec_matches rt target) (map fst data_map) of
                  Some k \<Rightarrow> VStr k
                | None \<Rightarrow> VNone) \<and>
         check_document_status rt user_doc (VStr document_name) =
           Inr (''Action required for '' @ py_str rt (get_or user_doc ''name'' (VStr ''the user''))
                @ '': They need to resubmit their '' @ quoted key @ ''.'')"
proof -
  have ne: "resub \<noteq> []"
    using assms(3) by (auto dest: find_Some_nonempty)
  have key: "find_robust_key rt (VDict resub) (VStr document_name) = Inr (VStr key)"
    by (simp add: find_robust_key_dict assms(3))
  have "check_document_status rt user_doc (VStr document_name) =
           Inr (''Action required for '' @ py_str rt (get_or user_doc ''name'' (VStr ''the user''))
                @ '': They need to resubmit their '' @ quoted key @ ''.'')"
    using assms(1,2,4,5,6) ne key
    by (simp add: check_document_status_def get_or_def flag_of_def attr_get_def py_str_def Let_def)
  then show ?thesis
    by (simp add: find_robust_key_dict)
qed

theorem check_document_status_resubmission_first_witness:
  "find_robust_key example_runtime (VDict [(''ID Card'', VBool True)]) (VStr ''id'')
     = Inr (VStr ''ID Card'') \<and>
   map_of omar ''uploadedDocuments'' = Some (VDict [(''ID Card'', VBool True)]) \<and>
   check_document_status example_runtime omar (VStr ''id'') =
     Inr (''Action required for Omar: They need to resubmit their '' @ quoted ''ID Card'' @ ''.'')"
proof -
  have h1: "map_of omar ''resubmissionRequested'' = Some (VDict [(''ID Card'', VBool True)])"
    by (simp add: omar_def)
  have h2: "''id'' \<noteq> []"
    by simp
  have h3: "find (spec_matches example_runtime ''id'') (map fst [(''ID Card'', VBool True)])
              = Some ''ID Card''"
    by (simp add: id_matches_id_card)
  have h4: "''ID Card'' \<noteq> []"
    by simp
  have h5: "map_of [(''ID Card'', VBool True)] ''ID Card'' = Some (VBool True)"
    by simp
  have h6: "truthy (VBool True)"
    by simp
  have name: "py_str example_runtime (get_or omar ''name'' (VStr ''the user'')) = ''Omar''"
    by (simp add: omar_def get_or_def py_str_def)
  have up: "map_of omar ''uploadedDocuments'' = Some (VDict [(''ID Card'', VBool True)])"
    by (simp add: omar_def)
  show ?thesis
    using check_document_status_resubmission_first
          [OF h1 h2 h3 h4 h5 h6, of "[(''ID Card'', VBool True)]" "''id''"] up
    by (simp add: name h3 del: list.map)
qed

text \<open>
  C9, as amended. A match in the resubmission map whose flag is false does not end the
  check: when the first key of the resubmission map that the requested name matches has a
  false flag, the answer is the one of the block for the map of uploaded documents, and
  when the first key that the requested name matches there has a true flag, it is the
  submitted-and-approved message. The case of a first resubmission match with a true flag
  is the theorem before.
\<close>

theorem unflagged_resubmission_falls_through:
  assumes "map_of user_doc ''resubmissionRequested'' = Some (VDict resub)"
    and "document_name \<noteq> []"
    and "find (spec_matches rt document_name) (map fst resub) = Some resub_key"
    and "map_of resub resub_key = Some resub_flag"
    and "\<not> truthy resub_flag"
    and "map_of user_doc ''uploadedDocuments'' = Some (VDict up)"
    and "find (spec_matches rt document_name) (map fst up) = Some up_key"
    and "up_key \<noteq> []"
    and "map_of up up_key = Some up_flag"
    and "truthy up_flag"
  shows "check_document_status rt user_doc (VStr document_name) =
           uploaded_status rt user_doc (VStr document_name)
             (get_or user_doc ''name'' (VStr ''the user'')) \<and>
         check_document_status rt user_doc (VStr document_name) =
           Inr (''Yes, the '' @ quoted up_key @ '' for ''
                @ py_str rt (get_or user_doc ''name'' (VStr ''the user''))
                @ '' has been successfully submitted and approved.'')"
proof -
  let ?name = "get_or user_doc ''name'' (VStr ''the user'')"
  have up_ne: "up \<noteq> []"
    using assms(7) by (auto dest: find_Some_nonempty)
  have up: "uploaded_status rt user_doc (VStr document_name) ?name =
           Inr (''Yes, the '' @ quoted up_key @ '' for '' @ py_str rt ?name
                @ '' has been successfully submitted and approved.'')"
    using assms(6,8,9,10) up_ne
    by (simp add: uploaded_status_def get_or_def find_robust_key_dict assms(7) flag_of_def
          attr_get_def py_str_def Let_def)
  have "check_document_status rt user_doc (VStr document_name) =
          uploaded_status rt user_doc (VStr document_name) ?name"
    using assms(1,2,4,5)
    by (simp add: check_document_status_def get_or_def find_robust_key_dict assms(3) flag_of_def
          attr_get_def Let_def)
  with up show ?thesis by simp
qed

theorem unflagged_resubmission_falls_through_witness:
  "map_of robert ''resubmissionRequested'' = Some (VDict [(''ID Card'', VBool False)]) \<and>
   check_document_status example_runtime robert (VStr ''id'') =
     Inr (''Yes, the '' @ quoted ''ID Card''
          @ '' for Robert has been successfully submitted and approved.'')"
proof -
  have h1: "map_of robert ''resubmissionRequested'' = Some (VDict [(''ID Card'', VBool False)])"
    by (simp add: robert_def)
  have h2: "''id'' \<noteq> []"
    by simp
  have h3: "find (spec_matches example_runtime ''id'') (map fst [(''ID Card'', VBool False)])
              = Some ''ID Card''"
    by (simp add: id_matches_id_card)
  have h4: "map_of [(''ID Card'', VBool False)] ''ID Card'' = Some (VBool False)"
    by simp
  have h5: "\<not> truthy (VBool False)"
    by simp
  have h6: "map_of robert ''uploadedDocuments'' = Some (VDict [(''ID Card'', VBool True)])"
    by (simp add: robert_def)
  have h7: "find (spec_matches example_runtime ''id'') (map fst [(''ID Card'', VBool True)])
              = Some ''ID Card''"
    by (simp add: id_matches_id_card)
  have h8: "''ID Card'' \<noteq> []"
    by simp
  have h9: "map_of [(''ID Card'', VBool True)] ''ID Card'' = Some (VBool True)"
    by simp
  have h10: "truthy (VBool True)"
    by simp
  have name: "py_str example_runtime (get_or robert ''name'' (VStr ''the user'')) = ''Robert''"
    by (simp add: robert_def get_or_def py_str_def)
  show ?thesis
    using unflagged_resubmission_falls_through
          [OF h1 h2 h3 h4 h5 h6 h7 h8 h9 h10, THEN conjunct2] h1
    by (simp add: name)
qed

text \<open>
  C9 as the claim states it: a false-flagged resubmission match and a true-flagged match
  in the uploaded documents would give the submitted-and-approved message. In Nora's record
  the request \<^verbatim>\<open>id\<close> matches \<^verbatim>\<open>ID Card\<close> in both maps, false in the first and true in the
  second, but the loop stops at \<^verbatim>\<open>Old ID\<close>, which matches too, comes first and is false:
  the answer is that there is no information.
\<close>

theorem unflagged_resubmission_counterexample:
  "map_of nora ''resubmissionRequested'' = Some (VDict [(''ID Card'', VBool False)]) \<and>
   map_of nora ''uploadedDocuments''
     = Some (VDict [(''Old ID'', VBool False), (''ID Card'', VBool True)]) \<and>
   spec_matches example_runtime ''id'' ''ID Card'' \<and>
   check_document_status example_runtime nora (VStr ''id'') =
     Inr (''There is no information regarding the document '' @ quoted ''id'' @ '' for Nora.'') \<and>
   check_document_status example_runtime nora (VStr ''id'') \<noteq>
     Inr (''Yes, the '' @ quoted ''ID Card''
          @ '' for Nora has been successfully submitted and approved.'')"
  by code_simp

text \<open>
  A key outside ASCII. For a runtime that lower-cases the accented capital as CPython
  does, the request in small letters matches the key with the capital first; its flag is
  false, the record has no map of uploaded documents, and the answer is that there is no
  information, although a later key matches with a true flag.
\<close>

lemma accented_capital_in_matcher:
  assumes "lower rt ecole_cap = ecole_small"
    and "lower rt ecole_small = ecole_small"
  shows "check_document_status rt ecole_record (VStr ecole_small) =
           Inr (''There is no information regarding the document '' @ quoted ecole_small
                @ '' for Omar.'')"
proof -
  have m: "spec_matches rt ecole_small ecole_cap"
    by (simp add: spec_matches_def spec_normalize_def assms)
  have k: "find_robust_key rt (VDict [(ecole_cap, VBool False), (ecole_small @ '' x'', VBool True)])
             (VStr ecole_small) = Inr (VStr ecole_cap)"
    by (simp add: find_robust_key_dict m)
  have ne: "ecole_small \<noteq> []" "ecole_cap \<noteq> []"
    by (simp_all add: ecole_small_def ecole_cap_def)
  show ?thesis
    using ne
    by (simp add: check_document_status_def uploaded_status_def ecole_record_def get_or_def k
          flag_of_def attr_get_def py_str_def Let_def)
qed

section \<open>Record store\<close>

text \<open>
  C7. \<^verbatim>\<open>_get_user_by_identifier\<close> returns the first record whose email equals the
  identifier exactly; only when there is none does it return the first record whose name
  equals the title-cased identifier. In the example store \<^verbatim>\<open>bob@co.com\<close> finds Robert,
  whose email it is, although a record named Bob exists; \<^verbatim>\<open>bob\<close> finds Bob through the
  title-cased name.
\<close>

theorem get_user_by_identifier_email_first:
  assumes "identifier \<noteq> []"
    and "\<not> raises db (WhereEq ''email'' (VStr identifier))"
    and "\<not> raises db (WhereEq ''name'' (VStr (title rt identifier)))"
  shows "fst (get_user_by_identifier rt db (VStr identifier)) =
           Inr (case find (\<lambda>d. map_of d ''email'' = Some (VStr identifier)) (map snd (users db)) of
                  Some d \<Rightarrow> Some d
                | None \<Rightarrow>
                    find (\<lambda>d. map_of d ''name'' = Some (VStr (title rt identifier)))
                      (map snd (users db)))"
  using assms
  by (simp add: get_user_by_identifier_def where_eq_def find_filter_hd split: list.splits)

theorem get_user_by_identifier_email_first_witness:
  "fst (get_user_by_identifier example_runtime example_store (VStr ''bob@co.com''))
     = Inr (Some robert) \<and>
   map_of bob ''name'' = Some (VStr ''Bob'') \<and>
   fst (get_user_by_identifier example_runtime example_store (VStr ''bob'')) = Inr (Some bob)"
proof -
  have h1: "''bob@co.com'' \<noteq> []" and h1': "''bob'' \<noteq> []"
    by simp_all
  have h2: "\<not> raises example_store c" for c
    by (simp add: example_store_def)
  have e1: "find (\<lambda>d. map_of d ''email'' = Some (VStr ''bob@co.com'')) (map snd (users example_store))
              = Some robert"
    by code_simp
  have e2: "find (\<lambda>d. map_of d ''email'' = Some (VStr ''bob'')) (map snd (users example_store)) = None"
    by code_simp
  have n2: "find (\<lambda>d. map_of d ''name'' = Some (VStr (title example_runtime ''bob'')))
              (map snd (users example_store))
              = Some bob"
    by code_simp
  have nm: "map_of bob ''name'' = Some (VStr ''Bob'')"
    by (simp add: bob_def)
  show ?thesis
    using get_user_by_identifier_email_first [OF h1 h2 h2, of example_runtime]
      get_user_by_identifier_email_first [OF h1' h2 h2, of example_runtime]
    by (simp add: e1 e2 n2 nm)
qed

text \<open>
  A name outside ASCII. For a runtime that title-cases the first name as CPython does (the
  accented letter is a letter, so the letter after it stays small), the identifier in
  small letters finds the record by its name.
\<close>

lemma accented_name_in_lookup:
  assumes "title rt renee_small = renee_title"
  shows "fst (get_user_by_identifier rt renee_store (VStr renee_small)) =
           Inr (Some [(''name'', VStr renee_title)])"
proof -
  have ne: "renee_small \<noteq> []"
    by (simp add: renee_small_def)
  show ?thesis
    using ne
    by (simp add: get_user_by_identifier_def where_eq_def renee_store_def assms)
qed

section \<open>Dispatcher\<close>

lemma available_actions_nonempty:
  "role \<in> {''employee'', ''new'', ''hr''} \<Longrightarrow> available_actions (VStr role) \<noteq> []"
  by (auto simp: available_actions_def)

lemma tool_routed:
  assumes "\<not> raises db (GetDocument user_id)"
    and "map_of (users db) user_id = Some user_doc"
    and "map_of user_doc ''role'' = Some (VStr role)"
    and "role \<in> {''employee'', ''new'', ''hr''}"
  shows "get_user_specific_data_tool rt router query user_id (Some db) =
           (case router query (VStr role) (available_actions (VStr role)) of
              Inl e \<Rightarrow>
                (please_rephrase,
                 [Store (GetDocument user_id), Route query (VStr role) (available_actions (VStr role))])
            | Inr response \<Rightarrow>
                (case dispatch rt db user_doc (VStr role) response of
                   (outcome, evs') \<Rightarrow>
                     (case outcome of Inl e \<Rightarrow> please_rephrase | Inr answer \<Rightarrow> answer,
                      Store (GetDocument user_id)
                        # Route query (VStr role) (available_actions (VStr role)) # evs')))"
proof -
  have ne: "user_doc \<noteq> []"
    using assms(3) by auto
  have role: "get_or user_doc ''role'' (VStr ''unknown'') = VStr role"
    using assms(3) by (simp add: get_or_def)
  have menu: "available_actions (VStr role) \<noteq> []"
    using assms(4) by (rule available_actions_nonempty)
  show ?thesis
    using assms(1,2) ne menu
    by (simp add: get_user_specific_data_tool_def get_user_document_def role Let_def
          split: sum.splits prod.splits)
qed

lemma dispatch_not_permitted:
  assumes "map_of response ''action_name'' = Some (VStr action)"
    and "action = ''get_information_about_anyone'' \<or> action = ''get_applicant_count''"
    and "user_role \<noteq> VStr ''hr''"
  shows "dispatch rt db user_doc user_role (VDict response) = (Inr cannot_perform, [])"
  using assms by (auto simp: dispatch_def attr_get_def get_or_def)

lemma dispatch_no_action_name:
  assumes "map_of response ''action_name'' = None"
  shows "dispatch rt db user_doc user_role (VDict response) = (Inr cannot_perform, [])"
  using assms by (simp add: dispatch_def attr_get_def get_or_def)

text \<open>
  C1. A caller whose role is \<^verbatim>\<open>employee\<close> or \<^verbatim>\<open>new\<close> and a router result that names
  \<^verbatim>\<open>get_information_about_anyone\<close> or \<^verbatim>\<open>get_applicant_count\<close>: whatever the parameters
  are, the answer is the cannot-perform text, and the only events of the request are the
  load of the caller's record and the call of the router. No record is looked up by
  identifier and nothing is counted.
\<close>

theorem non_hr_caller_is_rejected:
  assumes "\<not> raises db (GetDocument user_id)"
    and "map_of (users db) user_id = Some user_doc"
    and "map_of user_doc ''role'' = Some (VStr role)"
    and "role = ''employee'' \<or> role = ''new''"
    and "router query (VStr role) (available_actions (VStr role)) = Inr (VDict response)"
    and "map_of response ''action_name'' = Some (VStr action)"
    and "action = ''get_information_about_anyone'' \<or> action = ''get_applicant_count''"
  shows "get_user_specific_data_tool rt router query user_id (Some db) =
           (cannot_perform,
            [Store (GetDocument user_id), Route query (VStr role) (available_actions (VStr role))])"
proof -
  have r: "role \<in> {''employee'', ''new'', ''hr''}"
    using assms(4) by auto
  have nhr: "VStr role \<noteq> VStr ''hr''"
    using assms(4) by auto
  show ?thesis
    by (simp add: tool_routed [OF assms(1,2,3) r] assms(5)
          dispatch_not_permitted [OF assms(6,7) nhr])
qed

theorem non_hr_caller_is_rejected_witness:
  "get_user_specific_data_tool example_runtime count_router ''how many applicants?'' ''u1''
     (Some example_store) =
     (cannot_perform,
      [Store (GetDocument ''u1''),
       Route ''how many applicants?'' (VStr ''employee'') (available_actions (VStr ''employee''))])"
proof -
  have h1: "\<not> raises example_store (GetDocument ''u1'')"
    by (simp add: example_store_def)
  have h2: "map_of (users example_store) ''u1'' = Some omar"
    by (simp add: example_store_def example_users_def)
  have h3: "map_of omar ''role'' = Some (VStr ''employee'')"
    by (simp add: omar_def)
  have h4: "''employee'' = ''employee'' \<or> ''employee'' = ''new''"
    by simp
  have h5: "count_router ''how many applicants?'' (VStr ''employee'') (available_actions (VStr ''employee''))
              = Inr (VDict [(''action_name'', VStr ''get_applicant_count''), (''parameters'', VDict [])])"
    by (simp add: count_router_def)
  have h6: "map_of [(''action_name'', VStr ''get_applicant_count''), (''parameters'', VDict [])]
              ''action_name'' = Some (VStr ''get_applicant_count'')"
    by simp
  have h7: "''get_applicant_count'' = ''get_information_about_anyone''
              \<or> ''get_applicant_count'' = ''get_applicant_count''"
    by simp
  show ?thesis
    by (rule non_hr_caller_is_rejected
          [where router = count_router and query = "''how many applicants?''",
           OF h1 h2 h3 h4 h5 h6 h7])
qed

text \<open>
  C3, as amended. The text for a rejected action is the cannot-perform text. The text when
  the classification call raises or its output is not JSON is the rephrase text. The two
  texts are different. A result object without \<^verbatim>\<open>action_name\<close> gets the cannot-perform
  text, the same as a rejected action.
\<close>

theorem denial_and_failure_texts:
  assumes "\<not> raises db (GetDocument user_id)"
    and "map_of (users db) user_id = Some user_doc"
    and "map_of user_doc ''role'' = Some (VStr role)"
    and "role = ''employee'' \<or> role = ''new''"
    and "denying query (VStr role) (available_actions (VStr role)) = Inr (VDict response)"
    and "map_of response ''action_name'' = Some (VStr action)"
    and "action = ''get_information_about_anyone'' \<or> action = ''get_applicant_count''"
    and "failing query (VStr role) (available_actions (VStr role)) = Inl e"
    and "nameless query (VStr role) (available_actions (VStr role)) = Inr (VDict incomplete)"
    and "map_of incomplete ''action_name'' = None"
  shows "fst (get_user_specific_data_tool rt denying query user_id (Some db)) = cannot_perform \<and>
         fst (get_user_specific_data_tool rt failing query user_id (Some db)) = please_rephrase \<and>
         fst (get_user_specific_data_tool rt nameless query user_id (Some db)) = cannot_perform \<and>
         cannot_perform \<noteq> please_rephrase"
proof -
  have r: "role \<in> {''employee'', ''new'', ''hr''}"
    using assms(4) by auto
  have nhr: "VStr role \<noteq> VStr ''hr''"
    using assms(4) by auto
  have denied: "fst (get_user_specific_data_tool rt denying query user_id (Some db)) = cannot_perform"
    by (simp add: tool_routed [OF assms(1,2,3) r] assms(5)
          dispatch_not_permitted [OF assms(6,7) nhr])
  have failed: "fst (get_user_specific_data_tool rt failing query user_id (Some db)) = please_rephrase"
    by (simp add: tool_routed [OF assms(1,2,3) r] assms(8))
  have incomplete: "fst (get_user_specific_data_tool rt nameless query user_id (Some db)) = cannot_perform"
    by (simp add: tool_routed [OF assms(1,2,3) r] assms(9) dispatch_no_action_name [OF assms(10)])
  have differ: "cannot_perform \<noteq> please_rephrase"
    by (simp add: cannot_perform_def please_rephrase_def)
  from denied failed incomplete differ show ?thesis
    by simp
qed

theorem denial_and_failure_texts_witness:
  "fst (get_user_specific_data_tool example_runtime count_router ''q'' ''u1'' (Some example_store))
     = cannot_perform \<and>
   fst (get_user_specific_data_tool example_runtime failing_router ''q'' ''u1'' (Some example_store))
     = please_rephrase \<and>
   fst (get_user_specific_data_tool example_runtime nameless_router ''q'' ''u1'' (Some example_store))
     = cannot_perform \<and>
   cannot_perform \<noteq> please_rephrase"
proof -
  have h1: "\<not> raises example_store (GetDocument ''u1'')"
    by (simp add: example_store_def)
  have h2: "map_of (users example_store) ''u1'' = Some omar"
    by (simp add: example_store_def example_users_def)
  have h3: "map_of omar ''role'' = Some (VStr ''employee'')"
    by (simp add: omar_def)
  have h4: "''employee'' = ''employee'' \<or> ''employee'' = ''new''"
    by simp
  have h5: "count_router ''q'' (VStr ''employee'') (available_actions (VStr ''employee''))
              = Inr (VDict [(''action_name'', VStr ''get_applicant_count''), (''parameters'', VDict [])])"
    by (simp add: count_router_def)
  have h6: "map_of [(''action_name'', VStr ''get_applicant_count''), (''parameters'', VDict [])]
              ''action_name'' = Some (VStr ''get_applicant_count'')"
    by simp
  have h7: "''get_applicant_count'' = ''get_information_about_anyone''
              \<or> ''get_applicant_count'' = ''get_applicant_count''"
    by simp
  have h8: "failing_router ''q'' (VStr ''employee'') (available_actions (VStr ''employee''))
              = Inl RouterError"
    by (simp add: failing_router_def)
  have h9: "nameless_router ''q'' (VStr ''employee'') (available_actions (VStr ''employee''))
              = Inr (VDict [(''parameters'', VDict [])])"
    by (simp add: nameless_router_def)
  have h10: "map_of [(''parameters'', VDict [])] ''action_name'' = None"
    by simp
  show ?thesis
    by (rule denial_and_failure_texts
          [where denying = count_router and failing = failing_router and nameless = nameless_router
             and query = "''q''", OF h1 h2 h3 h4 h5 h6 h7 h8 h9 h10])
qed

text \<open>
  C3 as the claim states it: the text after a rejected action and the text after a
  classification call that raises would be the same. For the employee Omar they differ.
\<close>

theorem denial_and_failure_texts_counterexample:
  "fst (get_user_specific_data_tool example_runtime count_router ''q'' ''u1'' (Some example_store))
     \<noteq> fst (get_user_specific_data_tool example_runtime failing_router ''q'' ''u1'' (Some example_store))"
  by code_simp

text \<open>
  C4, as amended. When the router returns an object without \<^verbatim>\<open>action_name\<close>, the answer is
  the cannot-perform text ("an unrecognized request"), for each of the three roles. The tool
  returns a text; no exception leaves it.
\<close>

theorem missing_action_name_is_unrecognized:
  assumes "\<not> raises db (GetDocument user_id)"
    and "map_of (users db) user_id = Some user_doc"
    and "map_of user_doc ''role'' = Some (VStr role)"
    and "role = ''employee'' \<or> role = ''new'' \<or> role = ''hr''"
    and "router query (VStr role) (available_actions (VStr role)) = Inr (VDict response)"
    and "map_of response ''action_name'' = None"
  shows "get_user_specific_data_tool rt router query user_id (Some db) =
           (cannot_perform,
            [Store (GetDocument user_id), Route query (VStr role) (available_actions (VStr role))])"
proof -
  have r: "role \<in> {''employee'', ''new'', ''hr''}"
    using assms(4) by auto
  show ?thesis
    by (simp add: tool_routed [OF assms(1,2,3) r] assms(5) dispatch_no_action_name [OF assms(6)])
qed

theorem missing_action_name_is_unrecognized_witness:
  "get_user_specific_data_tool example_runtime nameless_router ''q'' ''u2'' (Some example_store) =
     (cannot_perform,
      [Store (GetDocument ''u2''), Route ''q'' (VStr ''hr'') (available_actions (VStr ''hr''))])"
proof -
  have h1: "\<not> raises example_store (GetDocument ''u2'')"
    by (simp add: example_store_def)
  have h2: "map_of (users example_store) ''u2'' = Some hana"
    by (simp add: example_store_def example_users_def)
  have h3: "map_of hana ''role'' = Some (VStr ''hr'')"
    by (simp add: hana_def)
  have h4: "''hr'' = ''employee'' \<or> ''hr'' = ''new'' \<or> ''hr'' = ''hr''"
    by simp
  have h5: "nameless_router ''q'' (VStr ''hr'') (available_actions (VStr ''hr''))
              = Inr (VDict [(''parameters'', VDict [])])"
    by (simp add: nameless_router_def)
  have h6: "map_of [(''parameters'', VDict [])] ''action_name'' = None"
    by simp
  show ?thesis
    by (rule missing_action_name_is_unrecognized
          [where router = nameless_router and query = "''q''", OF h1 h2 h3 h4 h5 h6])
qed

text \<open>
  C4 as the claim states it: an object without \<^verbatim>\<open>action_name\<close> would give the rephrase
  text. It gives the cannot-perform text.
\<close>

theorem missing_action_name_counterexample:
  "nameless_router ''q'' (VStr ''employee'') (available_actions (VStr ''employee''))
     = Inr (VDict [(''parameters'', VDict [])]) \<and>
   fst (get_user_specific_data_tool example_runtime nameless_router ''q'' ''u1'' (Some example_store))
     = cannot_perform \<and>
   fst (get_user_specific_data_tool example_runtime nameless_router ''q'' ''u1'' (Some example_store))
     \<noteq> please_rephrase"
  by code_simp

text \<open>
  C5, as amended. When the store raises while the caller's record is loaded, the answer is
  the profile-not-found text, the same as for a caller without a record. The exception does
  not leave the tool, and the load is the only event of the request: the router is not
  called and the store is not asked again.
\<close>

theorem store_failure_reads_as_missing_profile:
  assumes "raises db (GetDocument user_id) \<or> map_of (users db) user_id = None"
  shows "get_user_specific_data_tool rt router query user_id (Some db) =
           (profile_not_found, [Store (GetDocument user_id)])"
  using assms
  by (auto simp: get_user_specific_data_tool_def get_user_document_def)

theorem store_failure_reads_as_missing_profile_witness:
  "raises failing_store (GetDocument ''u1'') \<and>
   get_user_specific_data_tool example_runtime count_router ''q'' ''u1'' (Some failing_store) =
     (profile_not_found, [Store (GetDocument ''u1'')])"
proof -
  have h: "raises failing_store (GetDocument ''u1'')"
    by (simp add: failing_store_def)
  then have "raises failing_store (GetDocument ''u1'') \<or> map_of (users failing_store) ''u1'' = None"
    by simp
  from store_failure_reads_as_missing_profile [OF this] h show ?thesis
    by simp
qed

text \<open>
  C5 as the claim states it: a store failure would be reported differently from a caller
  without a record. The store that raises for \<^verbatim>\<open>u1\<close> and the store that has no record
  for \<^verbatim>\<open>nobody\<close> give the same text, and it is not the cannot-connect text.
\<close>

theorem store_failure_counterexample:
  "raises failing_store (GetDocument ''u1'') \<and>
   \<not> raises example_store (GetDocument ''nobody'') \<and>
   map_of (users example_store) ''nobody'' = None \<and>
   fst (get_user_specific_data_tool example_runtime count_router ''q'' ''u1'' (Some failing_store))
     = fst (get_user_specific_data_tool example_runtime count_router ''q'' ''nobody'' (Some example_store)) \<and>
   fst (get_user_specific_data_tool example_runtime count_router ''q'' ''u1'' (Some failing_store))
     \<noteq> cannot_connect"
  by code_simp

text \<open>
  C8, as amended. For a caller whose record is not empty and whose role (\<^verbatim>\<open>unknown\<close>
  when the record has none) is not \<^verbatim>\<open>employee\<close>, \<^verbatim>\<open>new\<close> or \<^verbatim>\<open>hr\<close>, the menu is empty
  and the answer is the role-not-configured sentence with the role written into it. The
  load of the caller's record is the only event: the router is not called.
\<close>

theorem unconfigured_role_stops_before_routing:
  assumes "\<not> raises db (GetDocument user_id)"
    and "map_of (users db) user_id = Some user_doc"
    and "user_doc \<noteq> []"
    and "get_or user_doc ''role'' (VStr ''unknown'') = user_role"
    and "user_role \<noteq> VStr ''employee''"
    and "user_role \<noteq> VStr ''new''"
    and "user_role \<noteq> VStr ''hr''"
  shows "available_actions user_role = [] \<and>
         get_user_specific_data_tool rt router query user_id (Some db) =
           (''I'm sorry, your user role ('' @ quoted (py_str rt user_role)
              @ '') is not configured for any actions.'',
            [Store (GetDocument user_id)])"
proof -
  have menu: "available_actions user_role = []"
    using assms(5,6,7) by (simp add: available_actions_def)
  show ?thesis
    using assms(1,2,3)
    by (simp add: get_user_specific_data_tool_def get_user_document_def assms(4) menu Let_def)
qed

theorem unconfigured_role_stops_before_routing_witness:
  "available_actions (VStr ''admin'') = [] \<and>
   get_user_specific_data_tool example_runtime count_router ''q'' ''u5'' (Some example_store) =
     (''I'm sorry, your user role ('' @ quoted ''admin'' @ '') is not configured for any actions.'',
      [Store (GetDocument ''u5'')])"
proof -
  have h1: "\<not> raises example_store (GetDocument ''u5'')"
    by (simp add: example_store_def)
  have h2: "map_of (users example_store) ''u5'' = Some adam"
    by (simp add: example_store_def example_users_def)
  have h3: "adam \<noteq> []"
    by (simp add: adam_def)
  have h4: "get_or adam ''role'' (VStr ''unknown'') = VStr ''admin''"
    by (simp add: adam_def get_or_def)
  have h5: "VStr ''admin'' \<noteq> VStr ''employee''" and h6: "VStr ''admin'' \<noteq> VStr ''new''"
    and h7: "VStr ''admin'' \<noteq> VStr ''hr''"
    by simp_all
  show ?thesis
    using unconfigured_role_stops_before_routing
          [where router = count_router and query = "''q''" and rt = example_runtime,
           OF h1 h2 h3 h4 h5 h6 h7]
    by (simp add: py_str_def)
qed

text \<open>
  C8 as the claim states it: the text would be the same for every such role. The roles
  \<^verbatim>\<open>admin\<close> and \<^verbatim>\<open>guest\<close> get different texts.
\<close>

theorem unconfigured_role_counterexample:
  "map_of adam ''role'' = Some (VStr ''admin'') \<and>
   map_of gina ''role'' = Some (VStr ''guest'') \<and>
   fst (get_user_specific_data_tool example_runtime count_router ''q'' ''u5'' (Some example_store))
     \<noteq> fst (get_user_specific_data_tool example_runtime count_router ''q'' ''u6'' (Some example_store))"
  by code_simp

lemma lower_all: "lower rt ''all'' = ''all''"
  by code_simp

lemma all_has_no_keyword:
  "\<not> list_ex (\<lambda>keyword. occurs_in keyword (lower rt ''all'')) doc_keywords"
  by code_simp

lemma get_personal_data_all:
  "get_personal_data rt user_doc (VStr ''all'') =
     summary rt user_doc (get_or user_doc ''name'' (VStr ''The user''))"
  by (simp add: get_personal_data_def lower_all Let_def)

text \<open>
  C10, as amended. An \<^verbatim>\<open>hr\<close> caller, a router result that names
  \<^verbatim>\<open>get_information_about_anyone\<close> and whose parameters have no \<^verbatim>\<open>request_details\<close>: the
  dispatcher takes \<^verbatim>\<open>all\<close> for it, no document keyword occurs in \<^verbatim>\<open>all\<close>, and a target
  that is found goes to the formatter's summary, not to a clarification prompt or to the
  document check. The answer is the summary of the target's record when the summary can be
  formatted, and the rephrase text when formatting it raises.
\<close>

theorem anyone_without_details_gets_summary:
  assumes "\<not> raises db (GetDocument user_id)"
    and "map_of (users db) user_id = Some user_doc"
    and "map_of user_doc ''role'' = Some (VStr ''hr'')"
    and "router query (VStr ''hr'') (available_actions (VStr ''hr'')) = Inr (VDict response)"
    and "map_of response ''action_name'' = Some (VStr ''get_information_about_anyone'')"
    and "map_of response ''parameters'' = Some (VDict parameters)"
    and "map_of parameters ''request_details'' = None"
    and "map_of parameters ''target_identifier'' = Some target_id"
    and "truthy target_id"
    and "get_user_by_identifier rt db target_id = (Inr (Some target_doc), evs)"
    and "target_doc \<noteq> []"
  shows "attr_get (VDict parameters) ''request_details'' (VStr ''all'') = Inr (VStr ''all'') \<and>
         get_user_specific_data_tool rt router query user_id (Some db) =
           (case summary rt target_doc (get_or target_doc ''name'' (VStr ''The user'')) of
              Inl e \<Rightarrow> please_rephrase
            | Inr answer \<Rightarrow> answer,
            Store (GetDocument user_id)
              # Route query (VStr ''hr'') (available_actions (VStr ''hr'')) # evs)"
proof -
  have r: "''hr'' \<in> {''employee'', ''new'', ''hr''}"
    by simp
  have dflt: "attr_get (VDict parameters) ''request_details'' (VStr ''all'') = Inr (VStr ''all'')"
    using assms(7) by (simp add: attr_get_def get_or_def)
  have tid: "attr_get (VDict parameters) ''target_identifier'' VNone = Inr target_id"
    using assms(8) by (simp add: attr_get_def get_or_def)
  have branch: "information_about_anyone rt db (VDict parameters) =
                  (summary rt target_doc (get_or target_doc ''name'' (VStr ''The user'')), evs)"
    using assms(9,11)
    by (simp add: information_about_anyone_def dflt tid assms(10) all_has_no_keyword
          get_personal_data_all Let_def)
  have "dispatch rt db user_doc (VStr ''hr'') (VDict response) =
          (summary rt target_doc (get_or target_doc ''name'' (VStr ''The user'')), evs)"
    using assms(5,6) by (simp add: dispatch_def attr_get_def get_or_def branch)
  then have "get_user_specific_data_tool rt router query user_id (Some db) =
           (case summary rt target_doc (get_or target_doc ''name'' (VStr ''The user'')) of
              Inl e \<Rightarrow> please_rephrase
            | Inr answer \<Rightarrow> answer,
            Store (GetDocument user_id)
              # Route query (VStr ''hr'') (available_actions (VStr ''hr'')) # evs)"
    by (simp add: tool_routed [OF assms(1,2,3) r] assms(4))
  with dflt show ?thesis
    by simp
qed

theorem anyone_without_details_gets_summary_witness:
  "get_user_specific_data_tool example_runtime about_bob_router ''tell me about bob'' ''u2''
     (Some example_store) =
     (join [CHR 0x0A]
        [''Here is a summary for Bob:'', ''- Name: Bob'', ''- Email: bob@other.com'', ''- Role: new''],
      [Store (GetDocument ''u2''),
       Route ''tell me about bob'' (VStr ''hr'') (available_actions (VStr ''hr'')),
       Store (WhereEq ''email'' (VStr ''bob'')), Store (WhereEq ''name'' (VStr ''Bob''))])"
proof -
  have h1: "\<not> raises example_store (GetDocument ''u2'')"
    by (simp add: example_store_def)
  have h2: "map_of (users example_store) ''u2'' = Some hana"
    by (simp add: example_store_def example_users_def)
  have h3: "map_of hana ''role'' = Some (VStr ''hr'')"
    by (simp add: hana_def)
  have h4: "about_bob_router ''tell me about bob'' (VStr ''hr'') (available_actions (VStr ''hr'')) =
              Inr (VDict [(''action_name'', VStr ''get_information_about_anyone''),
                          (''parameters'', VDict [(''target_identifier'', VStr ''bob'')])])"
    by (simp add: about_bob_router_def)
  have h5: "map_of [(''action_name'', VStr ''get_information_about_anyone''),
                    (''parameters'', VDict [(''target_identifier'', VStr ''bob'')])] ''action_name''
              = Some (VStr ''get_information_about_anyone'')"
    by simp
  have h6: "map_of [(''action_name'', VStr ''get_information_about_anyone''),
                    (''parameters'', VDict [(''target_identifier'', VStr ''bob'')])] ''parameters''
              = Some (VDict [(''target_identifier'', VStr ''bob'')])"
    by simp
  have h7: "map_of [(''target_identifier'', VStr ''bob'')] ''request_details'' = None"
    by simp
  have h8: "map_of [(''target_identifier'', VStr ''bob'')] ''target_identifier'' = Some (VStr ''bob'')"
    by simp
  have h9: "truthy (VStr ''bob'')"
    by simp
  have h10: "get_user_by_identifier example_runtime example_store (VStr ''bob'') =
               (Inr (Some bob),
                [Store (WhereEq ''email'' (VStr ''bob'')), Store (WhereEq ''name'' (VStr ''Bob''))])"
    by code_simp
  have h11: "bob \<noteq> []"
    by (simp add: bob_def)
  have s: "summary example_runtime bob (get_or bob ''name'' (VStr ''The user'')) =
             Inr (join [CHR 0x0A]
                    [''Here is a summary for Bob:'', ''- Name: Bob'', ''- Email: bob@other.com'',
                     ''- Role: new''])"
    by code_simp
  show ?thesis
    using anyone_without_details_gets_summary
          [where router = about_bob_router and query = "''tell me about bob''"
             and rt = example_runtime, OF h1 h2 h3 h4 h5 h6 h7 h8 h9 h10 h11]
    by (simp only: s sum.case)
qed

text \<open>
  C10 as the claim states it: a target that is found would always get the summary. Sara's
  base salary is the string \<^verbatim>\<open>5000\<close>, which has no format \<^verbatim>\<open>:,.2f\<close>: the summary raises
  and the answer is the rephrase text.
\<close>

theorem anyone_without_details_counterexample:
  "map_of hana ''role'' = Some (VStr ''hr'') \<and>
   fst (get_user_by_identifier example_runtime example_store (VStr ''sara'')) = Inr (Some sara) \<and>
   summary example_runtime sara (VStr ''Sara'') = Inl ValueError \<and>
   fst (get_user_specific_data_tool example_runtime about_sara_router ''tell me about sara'' ''u2''
          (Some example_store)) = please_rephrase"
  by code_simp

end
